theory Spec2Isabelle
  imports
    Main
    "HOL-Library.Word"
    "HOL-Library.Multiset"
    "HOL-Library.Finite_Map"
begin

unbundle bit_operations_syntax

section \<open>Common Go types\<close>

text \<open>
  Go's \<open>byte\<close> is an 8-bit word, \<open>int64\<close> and \<open>time.Duration\<close> are 64-bit words read
  as two's complement, a Go \<open>string\<close> is a sequence of bytes (\<open>len\<close> counts bytes), a
  \<open>*big.Int\<close> is an unbounded integer. \<open>common.Address\<close> and \<open>common.Hash\<close> are byte
  arrays; they are kept as byte lists.
\<close>

type_synonym byte = "8 word"
type_synonym int64 = "64 word"
type_synonym Duration = "64 word"
type_synonym Address = "byte list"
type_synonym Hash = "byte list"

text \<open>
  A function of the sources ends in one of three ways: it returns a value, it returns an
  error, or it panics (a nil dereference, an index out of range).
\<close>

datatype ('e, 'a) outcome = Ok 'a | Err 'e | Panic

text \<open>
  Error values. \<open>External\<close> is an error value produced by a collaborator (store, chain
  client, signer); \<open>New\<close> is \<open>errors.New\<close>; \<open>Errorf\<close> is \<open>fmt.Errorf\<close> with a
  format and integer arguments; \<open>Wrapf\<close> is \<open>fmt.Errorf\<close> with a \<open>%w\<close> verb, which
  keeps the wrapped error; \<open>Hex\<close> is an error of \<open>encoding/hex\<close> (a string of odd
  length, or the first byte that is no hex digit).
\<close>

datatype hex_error = ErrLength | InvalidByteError char

datatype 'x error =
    External 'x
  | Hex hex_error
  | New string
  | Errorf string "int list"
  | Wrapf string "'x error"

section \<open>core/corehttp/webui.go\<close>

definition WebUIPath :: string where
  "WebUIPath = ''/btfs/QmPSaMbVPTrcPg8CxW8GRrKYY9YZyxEQek9eKg5is13S9H''"

definition WebUIPaths :: "string list" where
  "WebUIPaths =
     [ WebUIPath,
       ''/btfs/QmRZYABH4LisEQPQmpzHAAxacDZbsKtnysjzEuZBaug6bG'',
       ''/btfs/QmRwxtQfzpfaLKYfg3qhxsFfpRm3J3qLXJxDofsLV8ydXq'' ]"

text \<open>
  The body of \<open>RedirectOption(path, redirect)\<close> is not among the sources. An option is
  kept as the call that builds it: the name of the path it serves and the target it
  redirects to.
\<close>

datatype ServeOption = RedirectOption (option_path: string) (option_redirect: string)

definition HostUIOption :: ServeOption where
  "HostUIOption = RedirectOption ''hostui'' WebUIPath"

definition WebUIOption :: ServeOption where
  "WebUIOption = RedirectOption ''webui'' WebUIPath"

definition DashboardOption :: ServeOption where
  "DashboardOption = RedirectOption ''dashboard'' WebUIPath"

section \<open>chain/chain.go: constants and InitChain\<close>

text \<open>The constants of package \<open>time\<close> that \<open>MaxDelay\<close> is built from (nanoseconds).\<close>

definition Nanosecond :: Duration where "Nanosecond = 1"
definition Microsecond :: Duration where "Microsecond = 1000 * Nanosecond"
definition Millisecond :: Duration where "Millisecond = 1000 * Microsecond"
definition Second :: Duration where "Second = 1000 * Millisecond"
definition Minute :: Duration where "Minute = 60 * Second"

definition MaxDelay :: Duration where
  "MaxDelay = 1 * Minute"

definition CancellationDepth :: int where
  "CancellationDepth = 6"

text \<open>The fields of \<open>config.ChainConfig\<close> that the sources read.\<close>

record ChainConfig =
  Endpoint :: string
  CurrentFactory :: Address
  PriceOracleAddress :: Address

text \<open>
  \<open>crypto.Signer\<close> is an interface; \<open>InitChain\<close> calls its \<open>EthereumAddress\<close> method
  only.
\<close>

record 'x Signer =
  EthereumAddress :: "'x + Address"

text \<open>
  \<open>transaction.NewMonitor(backend, sender, pollingInterval, cancellationDepth)\<close> is not
  among the sources. A monitor is kept as the four arguments it is built from.
\<close>

record 'b Monitor =
  mon_backend :: 'b
  mon_sender :: Address
  mon_pollingInterval :: Duration
  mon_cancellationDepth :: int

record ('b, 'x, 'sv) ChainInfo =
  Chainconfig :: ChainConfig
  Backend :: 'b
  OverlayAddress :: Address
  Signer :: "'x Signer"
  ChainID :: int64
  PeerID :: string
  TransactionMonitor :: "'b Monitor"
  TransactionService :: 'sv

text \<open>
  The collaborators \<open>InitChain\<close> calls and the sources do not hold:
  \<open>config.GetChainConfig\<close> returns a pointer (\<open>None\<close> is nil) and the found flag,
  \<open>ethclient.Dial\<close> a client or an error, \<open>transaction.NewService\<close> a service or an
  error. \<open>common.IsHexAddress\<close> and \<open>common.HexToAddress\<close>, which
  \<open>initVaultFactory\<close> calls, are go-ethereum's.
\<close>

record ('b, 'x, 'st, 'sv) chain_deps =
  GetChainConfig :: "int64 \<Rightarrow> ChainConfig option \<times> bool"
  Dial :: "string \<Rightarrow> 'x + 'b"
  NewService :: "'b \<Rightarrow> 'x Signer \<Rightarrow> 'st \<Rightarrow> int \<Rightarrow> 'b Monitor \<Rightarrow> 'x + 'sv"
  IsHexAddress :: "string \<Rightarrow> bool"
  HexToAddress :: "string \<Rightarrow> Address"

text \<open>
  \<open>InitChain\<close> takes the value of the package variable \<open>ChainObject\<close> before the call
  and returns its value after the call, beside the outcome. The second test of
  \<open>err\<close> (line 77) follows a return on the same condition and is never taken. The context
  argument is not used.
\<close>

definition InitChain ::
  "('b, 'x, 'st, 'sv) chain_deps \<Rightarrow> ('b, 'x, 'sv) ChainInfo \<Rightarrow> 'st \<Rightarrow> 'x Signer \<Rightarrow>
   Duration \<Rightarrow> int64 \<Rightarrow> string \<Rightarrow>
   ('b, 'x, 'sv) ChainInfo \<times> ('x error, ('b, 'x, 'sv) ChainInfo) outcome" where
  "InitChain deps ChainObject stateStore signer pollingInterval chainID peerid =
     (case fst (GetChainConfig deps chainID) of
        None \<Rightarrow> (ChainObject, Panic)
      | Some chainconfig \<Rightarrow>
       (case Dial deps (Endpoint chainconfig) of
          Inl err \<Rightarrow> (ChainObject, Err (Wrapf ''dial eth client: %w'' (External err)))
        | Inr backend \<Rightarrow>
         (case EthereumAddress signer of
            Inl err \<Rightarrow> (ChainObject, Err (Wrapf ''eth address: %w'' (External err)))
          | Inr overlayEthAddress \<Rightarrow>
             (let transactionMonitor =
                    \<lparr> mon_backend = backend, mon_sender = overlayEthAddress,
                      mon_pollingInterval = pollingInterval,
                      mon_cancellationDepth = CancellationDepth \<rparr>
              in case NewService deps backend signer stateStore (sint chainID)
                        transactionMonitor of
                   Inl err \<Rightarrow>
                     (ChainObject, Err (Wrapf ''new transaction service: %w'' (External err)))
                 | Inr transactionService \<Rightarrow>
                     (let ChainObject' =
                            \<lparr> Chainconfig = chainconfig, Backend = backend,
                              OverlayAddress = overlayEthAddress, Signer = signer,
                              ChainID = chainID, PeerID = peerid,
                              TransactionMonitor = transactionMonitor,
                              TransactionService = transactionService \<rparr>
                      in (ChainObject', Ok ChainObject'))))))"

section \<open>chain/chain.go: initVaultFactory\<close>

text \<open>
  \<open>vault.NewFactory(backend, transactionService, address)\<close> is not among the sources. A
  factory is kept as the three arguments it is built from.
\<close>

record ('b, 'sv) Factory =
  fac_backend :: 'b
  fac_transactionService :: 'sv
  fac_address :: Address

text \<open>
  \<open>chainCfg.CurrentFactory\<close> (line 201) is read before any test: on a nil \<open>chainCfg\<close>
  the function panics there.
\<close>

definition initVaultFactory ::
  "('b, 'x, 'st, 'sv) chain_deps \<Rightarrow> 'b \<Rightarrow> int64 \<Rightarrow> 'sv \<Rightarrow> string \<Rightarrow>
   ('x error, ('b, 'sv) Factory) outcome" where
  "initVaultFactory deps backend chainID transactionService factoryAddress =
     (case GetChainConfig deps chainID of
        (None, found) \<Rightarrow> Panic
      | (Some chainCfg, found) \<Rightarrow>
         (let foundFactory = CurrentFactory chainCfg
          in if factoryAddress = '''' then
               (if \<not> found then
                  Err (Errorf ''no known factory address for this network (chain id: %d)''
                         [sint chainID])
                else
                  Ok \<lparr> fac_backend = backend, fac_transactionService = transactionService,
                       fac_address = foundFactory \<rparr>)
             else if \<not> IsHexAddress deps factoryAddress then
               Err (New ''malformed factory address'')
             else
               Ok \<lparr> fac_backend = backend, fac_transactionService = transactionService,
                    fac_address = HexToAddress deps factoryAddress \<rparr>))"

section \<open>chain/chain.go: GetTxHash\<close>

text \<open>
  The errors a state store returns: the sentinel \<open>storage.ErrNotFound\<close>, any other
  failure, or an error wrapping another. \<open>errors.Is\<close> follows the chain of wrapped errors.
\<close>

datatype store_error =
    ErrNotFound
  | StoreFailure string
  | StoreWrapped string store_error

fun errors_Is :: "store_error \<Rightarrow> store_error \<Rightarrow> bool" where
  "errors_Is (StoreWrapped msg inner) target =
     (StoreWrapped msg inner = target \<or> errors_Is inner target)"
| "errors_Is err target = (err = target)"

text \<open>
  \<open>storage.StateStorer\<close> is an interface; \<open>GetTxHash\<close> calls \<open>Get(key, &txHash)\<close>
  only, which returns an error or fills the hash. The key \<open>vault.VaultDeploymentKey\<close> is a
  constant of a package that is not among the sources: it is a parameter.
\<close>

record StateStorer =
  Get :: "string \<Rightarrow> store_error + Hash"

definition Bytes :: "Hash \<Rightarrow> byte list" where
  "Bytes h = h"

definition GetTxHash :: "string \<Rightarrow> StateStorer \<Rightarrow> (store_error error, byte list) outcome" where
  "GetTxHash VaultDeploymentKey stateStore =
     (let key = VaultDeploymentKey
      in case Get stateStore key of
           Inl err \<Rightarrow>
             (if errors_Is err ErrNotFound then
                Err (New ''vault deployment transaction hash not found, please specify the transaction hash manually'')
              else Err (External err))
         | Inr txHash \<Rightarrow> Ok (Bytes txHash))"

section \<open>chain/chain.go: GetTxNextBlock\<close>

text \<open>\<open>strings.TrimPrefix\<close>: the string without the prefix, when it starts with it.\<close>

definition TrimPrefix :: "string \<Rightarrow> string \<Rightarrow> string" where
  "TrimPrefix s pre = (if take (length pre) s = pre then drop (length pre) s else s)"

text \<open>
  \<open>hex.DecodeString\<close>: two characters give one byte, the first the high half. The first
  character that is no hex digit is reported; a string of odd length whose characters are
  all hex digits is reported as \<open>ErrLength\<close>.
\<close>

definition fromHexChar :: "char \<Rightarrow> byte option" where
  "fromHexChar c =
     (let n = (of_char c :: nat)
      in if 48 \<le> n \<and> n \<le> 57 then Some (of_nat (n - 48))
         else if 97 \<le> n \<and> n \<le> 102 then Some (of_nat (n - 97 + 10))
         else if 65 \<le> n \<and> n \<le> 70 then Some (of_nat (n - 65 + 10))
         else None)"

fun DecodeString :: "string \<Rightarrow> hex_error + byte list" where
  "DecodeString (p # q # rest) =
     (case fromHexChar p of
        None \<Rightarrow> Inl (InvalidByteError p)
      | Some a \<Rightarrow>
         (case fromHexChar q of
            None \<Rightarrow> Inl (InvalidByteError q)
          | Some b \<Rightarrow>
             (case DecodeString rest of
                Inl e \<Rightarrow> Inl e
              | Inr bs \<Rightarrow> Inr ((push_bit 4 a OR b) # bs))))"
| "DecodeString [p] =
     (case fromHexChar p of
        None \<Rightarrow> Inl (InvalidByteError p)
      | Some a \<Rightarrow> Inl ErrLength)"
| "DecodeString [] = Inr []"

text \<open>
  \<open>common.BytesToHash\<close>: the last 32 bytes of a longer input, a shorter one padded with
  zero bytes on the left.
\<close>

definition BytesToHash :: "byte list \<Rightarrow> Hash" where
  "BytesToHash b =
     (let b' = (if length b > 32 then drop (length b - 32) b else b)
      in replicate (32 - length b') 0 @ b')"

record Receipt =
  BlockNumber :: int

record Block =
  block_Hash :: Hash

text \<open>
  The chain reads of \<open>GetTxNextBlock\<close>: the \<open>TransactionReceipt\<close> method of the backend,
  and \<open>transaction.WaitBlock\<close> on that backend, which is not among the sources. The
  function returns, beside its outcome, the reads it made, in order.
\<close>

record 'x ChainReads =
  TransactionReceipt :: "Hash \<Rightarrow> 'x + Receipt"
  WaitBlock :: "Duration \<Rightarrow> int \<Rightarrow> 'x + Block"

datatype backend_call =
    TransactionReceipt_call Hash
  | WaitBlock_call Duration int

definition GetTxNextBlock ::
  "'x ChainReads \<Rightarrow> 'm \<Rightarrow> Duration \<Rightarrow> byte list \<Rightarrow> string \<Rightarrow>
   backend_call list \<times> ('x error, byte list) outcome" where
  "GetTxNextBlock backend monitor duration trx blockHash =
     (if blockHash \<noteq> '''' then
        (let blockHashTrimmed = TrimPrefix blockHash ''0x''
         in if length blockHashTrimmed \<noteq> 64 then ([], Err (New ''invalid length''))
            else (case DecodeString blockHashTrimmed of
                    Inl err \<Rightarrow> ([], Err (Hex err))
                  | Inr blockHash' \<Rightarrow> ([], Ok blockHash')))
      else
        (case TransactionReceipt backend (BytesToHash trx) of
           Inl err \<Rightarrow> ([TransactionReceipt_call (BytesToHash trx)], Err (External err))
         | Inr tx \<Rightarrow>
            (case WaitBlock backend duration (0 + BlockNumber tx + 1) of
               Inl err \<Rightarrow>
                 ([TransactionReceipt_call (BytesToHash trx),
                   WaitBlock_call duration (0 + BlockNumber tx + 1)], Err (External err))
             | Inr block \<Rightarrow>
                 (let hash = block_Hash block; hashBytes = Bytes hash
                  in ([TransactionReceipt_call (BytesToHash trx),
                       WaitBlock_call duration (0 + BlockNumber tx + 1)], Ok hashBytes)))))"

text \<open>
  What "a valid hex encoding of exactly 32 bytes" means, for comparison:
  64 hex digits; and \<open>hex.EncodeToString\<close>, the lower-case encoding of a byte string.
\<close>

definition isHexDigit :: "char \<Rightarrow> bool" where
  "isHexDigit c = (c \<in> set ''0123456789abcdefABCDEF'')"

definition valid_hex32 :: "string \<Rightarrow> bool" where
  "valid_hex32 s = (length s = 64 \<and> list_all isHexDigit s)"

definition hextable :: string where
  "hextable = ''0123456789abcdef''"

definition EncodeToString :: "byte list \<Rightarrow> string" where
  "EncodeToString bs =
     concat (map (\<lambda>v. [hextable ! unat (drop_bit 4 v), hextable ! unat (v AND 15)]) bs)"

definition hexLower :: "char \<Rightarrow> char" where
  "hexLower c =
     (if c = CHR ''A'' then CHR ''a'' else if c = CHR ''B'' then CHR ''b''
      else if c = CHR ''C'' then CHR ''c'' else if c = CHR ''D'' then CHR ''d''
      else if c = CHR ''E'' then CHR ''e'' else if c = CHR ''F'' then CHR ''f''
      else c)"

section \<open>core/commands/cheque/send_list.go\<close>

text \<open>
  The fields of \<open>vault.SignedCheque\<close> the command reads, and the entry and result types
  of package \<open>cheque\<close> as the command fills them. \<open>LastSendCheques\<close> returns a Go map
  from peer identifier to cheque: a finite map.
\<close>

record SignedCheque =
  sc_Beneficiary :: Address
  sc_Vault :: Address
  sc_CumulativePayout :: int

record cheque =
  c_PeerID :: string
  c_Beneficiary :: string
  c_Vault :: string
  c_Payout :: int

record ListChequeRet =
  Cheques :: "cheque list"
  Len :: int

text \<open>
  \<open>for k, v := range cheques\<close> visits every key of the map once, in an order the
  language leaves to the runtime ("the iteration order over maps is not specified and is
  not guaranteed to be the same from one iteration to the next"). The order the runtime
  takes on one execution is the argument \<open>order\<close>; \<open>map_iteration\<close> says that a list is
  such an order.
\<close>

definition map_iteration :: "('k, 'v) fmap \<Rightarrow> 'k list \<Rightarrow> bool" where
  "map_iteration m order = (distinct order \<and> fset_of_list order = fmdom m)"

fun range_cheques ::
  "(Address \<Rightarrow> string) \<Rightarrow> (string, SignedCheque) fmap \<Rightarrow> string list \<Rightarrow>
   cheque list \<Rightarrow> cheque list" where
  "range_cheques String cheques [] acc = acc"
| "range_cheques String cheques (k # ks) acc =
     (case fmlookup cheques k of
        None \<Rightarrow> range_cheques String cheques ks acc
      | Some v \<Rightarrow>
          range_cheques String cheques ks
            (acc @ [\<lparr> c_PeerID = k, c_Beneficiary = String (sc_Beneficiary v),
                      c_Vault = String (sc_Vault v), c_Payout = sc_CumulativePayout v \<rparr>]))"

text \<open>
  The \<open>Run\<close> function of \<open>ListSendChequesCmd\<close>. \<open>String\<close> is the \<open>String\<close> method of
  \<open>common.Address\<close>, \<open>LastSendCheques\<close> the answer of the swap service. The value is the
  one handed to \<open>cmds.EmitOnce\<close>.
\<close>

definition ListSendChequesCmd_Run ::
  "(Address \<Rightarrow> string) \<Rightarrow> ('x + (string, SignedCheque) fmap) \<Rightarrow> string list \<Rightarrow>
   ('x error, ListChequeRet) outcome" where
  "ListSendChequesCmd_Run String LastSendCheques order =
     (case LastSendCheques of
        Inl err \<Rightarrow> Err (External err)
      | Inr cheques \<Rightarrow>
         (let listRet_Cheques = range_cheques String cheques order []
          in Ok \<lparr> Cheques = listRet_Cheques, Len = int (length listRet_Cheques) \<rparr>))"

text \<open>The entry the loop of \<open>ListSendChequesCmd\<close> appends for a peer and its cheque.\<close>

definition entry_of :: "(Address \<Rightarrow> string) \<Rightarrow> string \<Rightarrow> SignedCheque \<Rightarrow> cheque" where
  "entry_of String k v =
     \<lparr> c_PeerID = k, c_Beneficiary = String (sc_Beneficiary v),
       c_Vault = String (sc_Vault v), c_Payout = sc_CumulativePayout v \<rparr>"

section \<open>core/commands/cheque/receive_history_peer.go\<close>

text \<open>
  The fields of \<open>vault.ChequeRecord\<close> the command reads, and the entry and result types of
  package \<open>cheque\<close> as the command fills them.
\<close>

record ChequeRecord =
  cr_Vault :: Address
  cr_Beneficiary :: Address
  cr_Amount :: int
  cr_ReceiveTime :: int64

record chequeRecordRet =
  PeerId :: string
  r_Vault :: Address
  r_Beneficiary :: Address
  r_Amount :: int
  r_Time :: int64

record ChequeRecords =
  Records :: "chequeRecordRet list"
  rs_Len :: int

fun append_records ::
  "string \<Rightarrow> ChequeRecord list \<Rightarrow> chequeRecordRet list \<Rightarrow> chequeRecordRet list" where
  "append_records peer_id [] recordsRet = recordsRet"
| "append_records peer_id (v # records) recordsRet =
     append_records peer_id records
       (recordsRet @ [\<lparr> PeerId = peer_id, r_Vault = cr_Vault v,
                         r_Beneficiary = cr_Beneficiary v, r_Amount = cr_Amount v,
                         r_Time = cr_ReceiveTime v \<rparr>])"

text \<open>
  The \<open>Run\<close> function of \<open>ChequeReceiveHistoryPeerCmd\<close>: the arguments of the request,
  and \<open>ReceivedChequeRecordsByPeer\<close> of the swap service. \<open>req.Arguments[0]\<close> panics on
  an empty argument list. The result is the line printed on standard output (if any) and
  the outcome, whose value is the one handed to \<open>cmds.EmitOnce\<close>.
\<close>

definition ChequeReceiveHistoryPeerCmd_Run ::
  "(string \<Rightarrow> 'x + ChequeRecord list) \<Rightarrow> string list \<Rightarrow>
   string list \<times> ('x error, ChequeRecords) outcome" where
  "ChequeReceiveHistoryPeerCmd_Run ReceivedChequeRecordsByPeer Arguments =
     (case Arguments of
        [] \<Rightarrow> ([], Panic)
      | peer_id # _ \<Rightarrow>
         (let stdout = [''ChequeReceiveHistoryPeerCmd peer_id =  '' @ peer_id]
          in case ReceivedChequeRecordsByPeer peer_id of
               Inl err \<Rightarrow> (stdout, Err (External err))
             | Inr records \<Rightarrow>
                (let recordsRet = append_records peer_id records []
                 in (stdout,
                     Ok \<lparr> Records = recordsRet, rs_Len = int (length recordsRet) \<rparr>))))"

text \<open>
  The per-day entry \<open>SentStatsHistory\<close> returns (fields read by the command) and the
  entry type \<open>chequeSentHistoryStats\<close>.
\<close>

record DayStat =
  s_Amount :: int
  s_Count :: int
  s_Date :: int64

record chequeSentHistoryStats =
  TotalIssued :: int
  TotalIssuedCount :: int
  Date :: int64

fun append_stats ::
  "DayStat list \<Rightarrow> chequeSentHistoryStats list \<Rightarrow> chequeSentHistoryStats list" where
  "append_stats [] ret = ret"
| "append_stats (stat # stats) ret =
     append_stats stats
       (ret @ [\<lparr> TotalIssued = s_Amount stat, TotalIssuedCount = s_Count stat,
                  Date = s_Date stat \<rparr>])"

definition sentStatsDuration :: int where
  "sentStatsDuration = 30"

text \<open>
  The \<open>Run\<close> function of \<open>ChequeSendHistoryStatsCmd\<close>. \<open>SentStatsHistory\<close> is the method
  of the cheque store; the result is the list of the windows it was called with and the
  outcome, whose value is the one handed to \<open>cmds.EmitOnce\<close>.
\<close>

definition ChequeSendHistoryStatsCmd_Run ::
  "(int \<Rightarrow> 'x + DayStat list) \<Rightarrow> int list \<times> ('x error, chequeSentHistoryStats list) outcome" where
  "ChequeSendHistoryStatsCmd_Run SentStatsHistory =
     (case SentStatsHistory sentStatsDuration of
        Inl err \<Rightarrow> ([sentStatsDuration], Err (External err))
      | Inr stats \<Rightarrow> ([sentStatsDuration], Ok (append_stats stats [])))"

section \<open>Example inputs\<close>

text \<open>
  Concrete collaborators and inputs on which the properties below are evaluated: a
  configuration table that knows chain 199 only, a dialer that fails on an empty endpoint,
  a store, a chain with two blocks of interest, a map of two cheques, and the records and
  statistics of a peer.
\<close>

definition example_config :: ChainConfig where
  "example_config =
     \<lparr> Endpoint = ''https://rpc.example.org/'', CurrentFactory = replicate 20 1,
       PriceOracleAddress = replicate 20 2 \<rparr>"

definition unknown_config :: ChainConfig where
  "unknown_config = \<lparr> Endpoint = '''', CurrentFactory = [], PriceOracleAddress = [] \<rparr>"

definition example_deps :: "(string, string, unit, string) chain_deps" where
  "example_deps =
     \<lparr> GetChainConfig = (\<lambda>chainID. if chainID = 199 then (Some example_config, True)
                                     else (Some unknown_config, False)),
       Dial = (\<lambda>endpoint. if endpoint = '''' then Inl ''dial: no endpoint''
                           else Inr endpoint),
       NewService = (\<lambda>backend signer stateStore chainID monitor. Inr ''service''),
       IsHexAddress =
         (\<lambda>s. let t = (if take 2 s = ''0x'' \<or> take 2 s = ''0X'' then drop 2 s else s)
              in length t = 40 \<and> list_all isHexDigit t),
       HexToAddress = (\<lambda>s. replicate 20 51) \<rparr>"


definition example_signer :: "string Signer" where
  "example_signer = \<lparr> EthereumAddress = Inr (replicate 20 4) \<rparr>"

definition example_ChainObject :: "(string, string, string) ChainInfo" where
  "example_ChainObject =
     \<lparr> Chainconfig = unknown_config, Backend = '''', OverlayAddress = [],
       Signer = \<lparr> EthereumAddress = Inl ''no signer'' \<rparr>, ChainID = 0, PeerID = '''',
       TransactionMonitor =
         \<lparr> mon_backend = '''', mon_sender = [], mon_pollingInterval = 0,
           mon_cancellationDepth = 0 \<rparr>,
       TransactionService = '''' \<rparr>"

definition example_store :: "string \<Rightarrow> StateStorer" where
  "example_store deployed =
     \<lparr> Get = (\<lambda>key. if key = deployed then Inr (replicate 32 9)
                     else if key = ''locked'' then Inl (StoreFailure ''resource busy'')
                     else Inl (StoreWrapped ''get'' ErrNotFound)) \<rparr>"

definition example_hash :: string where
  "example_hash = ''00112233445566778899aAbBcCdDeEfF0123456789abcdefABCDEF0000000042''"

definition example_hash_bytes :: "byte list" where
  "example_hash_bytes =
     [0x00, 0x11, 0x22, 0x33, 0x44, 0x55, 0x66, 0x77, 0x88, 0x99, 0xAA, 0xBB, 0xCC, 0xDD,
      0xEE, 0xFF, 0x01, 0x23, 0x45, 0x67, 0x89, 0xAB, 0xCD, 0xEF, 0xAB, 0xCD, 0xEF, 0x00,
      0x00, 0x00, 0x00, 0x42]"

definition example_reads :: "string ChainReads" where
  "example_reads =
     \<lparr> TransactionReceipt =
         (\<lambda>h. if last h = 3 then Inr \<lparr> BlockNumber = 100 \<rparr>
               else if last h = 4 then Inr \<lparr> BlockNumber = 200 \<rparr>
               else Inl ''not found''),
       WaitBlock =
         (\<lambda>d n. if n = 101 then Inr \<lparr> block_Hash = replicate 32 7 \<rparr>
                 else Inl ''context deadline exceeded'') \<rparr>"

definition example_cheques :: "(string, SignedCheque) fmap" where
  "example_cheques =
     fmupd ''peerB'' \<lparr> sc_Beneficiary = replicate 20 2, sc_Vault = replicate 20 3,
                       sc_CumulativePayout = 250 \<rparr>
       (fmupd ''peerA'' \<lparr> sc_Beneficiary = replicate 20 1, sc_Vault = replicate 20 3,
                          sc_CumulativePayout = 100 \<rparr> fmempty)"

definition example_String :: "Address \<Rightarrow> string" where
  "example_String a = (if a = replicate 20 1 then ''0x0101'' else ''0x0000'')"

definition example_records :: "string \<Rightarrow> string + ChequeRecord list" where
  "example_records peer =
     (if peer = ''peerA'' then
        Inr [\<lparr> cr_Vault = replicate 20 3, cr_Beneficiary = replicate 20 1, cr_Amount = 100,
               cr_ReceiveTime = 1650000000 \<rparr>,
             \<lparr> cr_Vault = replicate 20 3, cr_Beneficiary = replicate 20 1, cr_Amount = 40,
               cr_ReceiveTime = 1650003600 \<rparr>]
      else Inl ''unknown peer'')"

definition example_stats :: "int \<Rightarrow> string + DayStat list" where
  "example_stats days =
     (if days = 30 then
        Inr [\<lparr> s_Amount = 500, s_Count = 2, s_Date = 1650000000 \<rparr>,
             \<lparr> s_Amount = 70, s_Count = 1, s_Date = 1650259200 \<rparr>]
      else Inl ''unsupported window'')"

section \<open>Properties\<close>

subsection \<open>WebUI paths\<close>

text \<open>
  C10. The current WebUI path is the first element of the list of historical paths, so the
  list contains it, and the hostui, webui and dashboard options all redirect to that one
  path.
\<close>

theorem webui_current_path_heads_history:
  "WebUIPaths \<noteq> [] \<and> hd WebUIPaths = WebUIPath \<and> WebUIPath \<in> set WebUIPaths
   \<and> option_redirect HostUIOption = WebUIPath
   \<and> option_redirect WebUIOption = WebUIPath
   \<and> option_redirect DashboardOption = WebUIPath
   \<and> option_path HostUIOption = ''hostui''
   \<and> option_path WebUIOption = ''webui''
   \<and> option_path DashboardOption = ''dashboard''"
  by (simp add: WebUIPaths_def HostUIOption_def WebUIOption_def DashboardOption_def)

subsection \<open>Chain initialisation\<close>

text \<open>
  C5 (as amended). The monitor \<open>InitChain\<close> builds has a cancellation depth of exactly 6
  blocks, whatever the arguments, and \<open>MaxDelay\<close> is exactly one minute
  (60 * 10^9 nanoseconds). Both are constants of the package: of the arguments of
  \<open>InitChain\<close> only the polling interval reaches the monitor's timing.
\<close>

theorem InitChain_monitor_depth_is_constant:
  "CancellationDepth = 6 \<and> sint MaxDelay = 60 * 1000000000 \<and>
   (snd (InitChain deps co st signer p c peer) = Ok ci \<longrightarrow>
      mon_cancellationDepth (TransactionMonitor ci) = 6 \<and>
      mon_pollingInterval (TransactionMonitor ci) = p)"
  by (auto simp: InitChain_def Let_def CancellationDepth_def MaxDelay_def Minute_def
        Second_def Millisecond_def Microsecond_def Nanosecond_def
      split: option.splits sum.splits)

theorem InitChain_monitor_depth_is_constant_witness:
  "snd (InitChain example_deps example_ChainObject () example_signer 5000000000 199 ''peer'') =
     Ok \<lparr> Chainconfig = example_config, Backend = ''https://rpc.example.org/'',
          OverlayAddress = replicate 20 4, Signer = example_signer, ChainID = 199,
          PeerID = ''peer'',
          TransactionMonitor =
            \<lparr> mon_backend = ''https://rpc.example.org/'', mon_sender = replicate 20 4,
              mon_pollingInterval = 5000000000, mon_cancellationDepth = 6 \<rparr>,
          TransactionService = ''service'' \<rparr>
   \<and> mon_cancellationDepth (TransactionMonitor
        \<lparr> Chainconfig = example_config, Backend = ''https://rpc.example.org/'',
          OverlayAddress = replicate 20 4, Signer = example_signer, ChainID = 199,
          PeerID = ''peer'',
          TransactionMonitor =
            \<lparr> mon_backend = ''https://rpc.example.org/'', mon_sender = replicate 20 4,
              mon_pollingInterval = 5000000000, mon_cancellationDepth = 6 \<rparr>,
          TransactionService = ''service'' \<rparr>) = 6"
  using InitChain_monitor_depth_is_constant
    [of example_deps example_ChainObject "()" example_signer 5000000000 199 "''peer''"]
  by (simp add: InitChain_def example_deps_def example_config_def example_signer_def
        CancellationDepth_def Let_def)

text \<open>
  C5 as stated says the depth is tunable per deployment. No collaborators and no
  arguments make \<open>InitChain\<close> build a monitor of another depth.
\<close>

theorem InitChain_depth_not_tunable:
  "\<not> (\<exists>(deps :: (string, string, unit, unit) chain_deps) co st signer p c peer ci.
        snd (InitChain deps co st signer p c peer) = Ok ci \<and>
        mon_cancellationDepth (TransactionMonitor ci) \<noteq> 6)"
  by (auto simp: InitChain_def Let_def CancellationDepth_def split: option.splits sum.splits)

text \<open>
  C8. When dialing the endpoint of the chain configuration fails, \<open>InitChain\<close> returns
  the error "dial eth client" wrapping the dial error, and \<open>ChainObject\<close> keeps its value;
  and on every path that does not return a chain info (an error or a panic)
  \<open>ChainObject\<close> keeps its value.
\<close>

theorem InitChain_failure_publishes_nothing:
  "(fst (GetChainConfig deps chainID) = Some chainconfig \<and>
      Dial deps (Endpoint chainconfig) = Inl e \<longrightarrow>
      InitChain deps ChainObject st signer p chainID peer =
        (ChainObject, Err (Wrapf ''dial eth client: %w'' (External e))))
   \<and> ((\<forall>ci. snd (InitChain deps ChainObject st signer p chainID peer) \<noteq> Ok ci) \<longrightarrow>
        fst (InitChain deps ChainObject st signer p chainID peer) = ChainObject)"
  by (auto simp: InitChain_def Let_def split: option.splits sum.splits)

theorem InitChain_failure_publishes_nothing_witness:
  "fst (GetChainConfig example_deps 5) = Some unknown_config
   \<and> Dial example_deps (Endpoint unknown_config) = Inl ''dial: no endpoint''
   \<and> InitChain example_deps example_ChainObject () example_signer 5000000000 5 ''peer'' =
       (example_ChainObject, Err (Wrapf ''dial eth client: %w'' (External ''dial: no endpoint'')))
   \<and> (\<forall>ci. snd (InitChain example_deps example_ChainObject () example_signer 5000000000 5 ''peer'') \<noteq> Ok ci)
   \<and> fst (InitChain example_deps example_ChainObject () example_signer 5000000000 5 ''peer'') =
       example_ChainObject"
  using InitChain_failure_publishes_nothing
    [of example_deps 5 unknown_config "''dial: no endpoint''" example_ChainObject "()"
        example_signer 5000000000 "''peer''"]
  by (simp add: InitChain_def example_deps_def unknown_config_def)

subsection \<open>Factory address resolution\<close>

text \<open>On a nil configuration pointer the function panics, whatever the address string.\<close>

lemma initVaultFactory_nil_config:
  "fst (GetChainConfig deps chainID) = None \<Longrightarrow>
   initVaultFactory deps backend chainID ts factoryAddress = Panic"
  by (cases "GetChainConfig deps chainID") (simp add: initVaultFactory_def)




subsection \<open>Deployment hash lookup\<close>

text \<open>
  C3. For every store: when \<open>Get\<close> finds the vault-deployment key, \<open>GetTxHash\<close> returns
  the bytes of the stored hash; it returns the error "vault deployment transaction hash not
  found, please specify the transaction hash manually" exactly when the store's error is
  (or wraps) \<open>ErrNotFound\<close>; any other store error is returned as it is.
\<close>

theorem GetTxHash_lookup:
  "(Get stateStore key = Inr txHash \<longrightarrow> GetTxHash key stateStore = Ok txHash)
   \<and> (GetTxHash key stateStore =
         Err (New ''vault deployment transaction hash not found, please specify the transaction hash manually'')
        \<longleftrightarrow> (\<exists>err. Get stateStore key = Inl err \<and> errors_Is err ErrNotFound))
   \<and> (Get stateStore key = Inl err \<and> \<not> errors_Is err ErrNotFound \<longrightarrow>
        GetTxHash key stateStore = Err (External err))"
  by (auto simp: GetTxHash_def Bytes_def split: sum.splits)

theorem GetTxHash_lookup_witness:
  "Get (example_store ''vault_deployment'') ''vault_deployment'' = Inr (replicate 32 9)
   \<and> GetTxHash ''vault_deployment'' (example_store ''vault_deployment'') = Ok (replicate 32 9)
   \<and> Get (example_store ''other'') ''vault_deployment'' = Inl (StoreWrapped ''get'' ErrNotFound)
   \<and> errors_Is (StoreWrapped ''get'' ErrNotFound) ErrNotFound
   \<and> GetTxHash ''vault_deployment'' (example_store ''other'') =
       Err (New ''vault deployment transaction hash not found, please specify the transaction hash manually'')
   \<and> Get (example_store ''other'') ''locked'' = Inl (StoreFailure ''resource busy'')
   \<and> \<not> errors_Is (StoreFailure ''resource busy'') ErrNotFound
   \<and> GetTxHash ''locked'' (example_store ''other'') = Err (External (StoreFailure ''resource busy''))"
  using GetTxHash_lookup [of "example_store ''vault_deployment''" "''vault_deployment''"
          "replicate 32 9"]
        GetTxHash_lookup [of "example_store ''other''" "''vault_deployment''" _
          "StoreWrapped ''get'' ErrNotFound"]
        GetTxHash_lookup [of "example_store ''other''" "''locked''" _
          "StoreFailure ''resource busy''"]
  by (simp add: example_store_def)

subsection \<open>Hex decoding\<close>

lemma nibble_bits: "a < 16 \<Longrightarrow> bit (a::8 word) n \<Longrightarrow> n < 4"
proof -
  assume a: "a < 16" and b: "bit a n"
  have "a AND mask 4 = a" using a by (simp add: less_mask_eq)
  then have "bit (a AND mask 4) n" using b by simp
  then show "n < 4" by (simp add: bit_simps)
qed

lemma nibble_hi: "a < 16 \<Longrightarrow> b < 16 \<Longrightarrow> drop_bit 4 (push_bit 4 a OR b) = (a::8 word)"
  by (rule bit_eqI) (auto simp: bit_simps dest: nibble_bits)

lemma nibble_lo: "a < 16 \<Longrightarrow> b < 16 \<Longrightarrow> (push_bit 4 a OR b) AND 15 = (b::8 word)"
proof -
  assume a: "a < 16" and b: "b < 16"
  have "(push_bit 4 a OR b) AND mask 4 = b"
    by (rule bit_eqI) (auto simp: bit_simps dest: nibble_bits [OF b])
  then show ?thesis by (simp add: mask_eq_exp_minus_1)
qed

lemma fromHexChar_digit:
  "isHexDigit c \<Longrightarrow> \<exists>a. fromHexChar c = Some a \<and> a < 16 \<and> hextable ! unat a = hexLower c"
  apply (simp add: isHexDigit_def)
  apply (elim disjE)
  apply (simp_all add: fromHexChar_def hextable_def hexLower_def)
  done

lemma nat_range_cases:
  "48 \<le> n \<Longrightarrow> n \<le> 57 \<Longrightarrow> n \<in> {48, 49, 50, 51, 52, 53, 54, 55, 56, (57::nat)}"
  "97 \<le> n \<Longrightarrow> n \<le> 102 \<Longrightarrow> n \<in> {97, 98, 99, 100, 101, (102::nat)}"
  "65 \<le> n \<Longrightarrow> n \<le> 70 \<Longrightarrow> n \<in> {65, 66, 67, 68, 69, (70::nat)}"
  by (simp_all, presburger+)

lemma of_char_eq_numeral: "(of_char c :: nat) = n \<Longrightarrow> c = char_of n"
  by (metis char_of_char)

lemma of_char_hex_digits:
  "(of_char c :: nat) \<in> {48, 49, 50, 51, 52, 53, 54, 55, 56, 57} \<Longrightarrow> isHexDigit c"
  "(of_char c :: nat) \<in> {97, 98, 99, 100, 101, 102} \<Longrightarrow> isHexDigit c"
  "(of_char c :: nat) \<in> {65, 66, 67, 68, 69, 70} \<Longrightarrow> isHexDigit c"
  apply (simp_all only: insert_iff empty_iff)
  apply (elim disjE FalseE; drule of_char_eq_numeral; simp add: isHexDigit_def char_of_eq_iff)+
  done

lemma fromHexChar_other: "\<not> isHexDigit c \<Longrightarrow> fromHexChar c = None"
proof -
  assume n: "\<not> isHexDigit c"
  have "\<not> (48 \<le> (of_char c :: nat) \<and> (of_char c :: nat) \<le> 57)"
    using n nat_range_cases(1) of_char_hex_digits(1) by blast
  moreover have "\<not> (97 \<le> (of_char c :: nat) \<and> (of_char c :: nat) \<le> 102)"
    using n nat_range_cases(2) of_char_hex_digits(2) by blast
  moreover have "\<not> (65 \<le> (of_char c :: nat) \<and> (of_char c :: nat) \<le> 70)"
    using n nat_range_cases(3) of_char_hex_digits(3) by blast
  ultimately show ?thesis
    by (simp add: fromHexChar_def Let_def)
qed

text \<open>
  On an even number of hex digits the decoder returns half as many bytes, and encoding
  them gives the digits back in lower case.
\<close>

lemma DecodeString_valid:
  "list_all isHexDigit s \<Longrightarrow> even (length s) \<Longrightarrow>
   \<exists>bs. DecodeString s = Inr bs \<and> 2 * length bs = length s
        \<and> EncodeToString bs = map hexLower s"
proof (induction s rule: DecodeString.induct)
  case (1 p q rest)
  from 1(2) obtain a where a: "fromHexChar p = Some a" "a < 16" "hextable ! unat a = hexLower p"
    using fromHexChar_digit by auto
  from 1(2) obtain b where b: "fromHexChar q = Some b" "b < 16" "hextable ! unat b = hexLower q"
    using fromHexChar_digit by auto
  from 1 a b obtain bs where bs: "DecodeString rest = Inr bs" "2 * length bs = length rest"
      "EncodeToString bs = map hexLower rest"
    by auto
  let ?v = "push_bit 4 a OR b"
  have dec: "DecodeString (p # q # rest) = Inr (?v # bs)"
    using a(1) b(1) bs(1) by simp
  have "EncodeToString (?v # bs) =
          [hextable ! unat (drop_bit 4 ?v), hextable ! unat (?v AND 15)] @ EncodeToString bs"
    by (simp only: EncodeToString_def list.map concat.simps)
  also have "\<dots> = [hexLower p, hexLower q] @ map hexLower rest"
    by (simp only: nibble_hi [OF a(2) b(2)] nibble_lo [OF a(2) b(2)] a(3) b(3) bs(3))
  finally have enc: "EncodeToString (?v # bs) = map hexLower (p # q # rest)"
    by simp
  show ?case
    using dec enc bs(2) by simp
next
  case (2 p)
  then show ?case by simp
next
  case 3
  then show ?case by (simp add: EncodeToString_def)
qed

lemma DecodeString_invalid:
  "\<not> list_all isHexDigit s \<Longrightarrow> \<exists>e. DecodeString s = Inl e"
proof (induction s rule: DecodeString.induct)
  case (1 p q rest)
  then show ?case
    by (cases "fromHexChar p"; cases "fromHexChar q"; cases "DecodeString rest")
       (auto simp: fromHexChar_other split: if_splits)
next
  case (2 p)
  then show ?case by (simp add: fromHexChar_other)
next
  case 3
  then show ?case by simp
qed

lemma TrimPrefix_hex: "valid_hex32 h \<Longrightarrow> TrimPrefix h ''0x'' = h"
proof -
  assume v: "valid_hex32 h"
  then obtain a b rest where h: "h = a # b # rest"
    by (cases h; cases "tl h") (auto simp: valid_hex32_def)
  then have "isHexDigit b" using v by (simp add: valid_hex32_def)
  then have "b \<noteq> CHR ''x''" by (auto simp: isHexDigit_def)
  then show ?thesis using h by (simp add: TrimPrefix_def)
qed

lemma TrimPrefix_0x: "TrimPrefix (''0x'' @ h) ''0x'' = h"
  by (simp add: TrimPrefix_def)

subsection \<open>Block hash lookup\<close>

lemma GetTxNextBlock_supplied:
  "blockHash \<noteq> '''' \<Longrightarrow>
   GetTxNextBlock backend monitor duration trx blockHash =
     (if length (TrimPrefix blockHash ''0x'') \<noteq> 64 then ([], Err (New ''invalid length''))
      else case DecodeString (TrimPrefix blockHash ''0x'') of
             Inl err \<Rightarrow> ([], Err (Hex err))
           | Inr bs \<Rightarrow> ([], Ok bs))"
  by (simp add: GetTxNextBlock_def Let_def)

lemma GetTxNextBlock_valid:
  assumes "blockHash \<noteq> ''''" and "valid_hex32 (TrimPrefix blockHash ''0x'')"
  shows "\<exists>bs. GetTxNextBlock backend monitor duration trx blockHash = ([], Ok bs)
            \<and> DecodeString (TrimPrefix blockHash ''0x'') = Inr bs
            \<and> length bs = 32
            \<and> EncodeToString bs = map hexLower (TrimPrefix blockHash ''0x'')"
proof -
  let ?t = "TrimPrefix blockHash ''0x''"
  have len: "length ?t = 64" and hex: "list_all isHexDigit ?t"
    using assms(2) by (simp_all add: valid_hex32_def)
  from DecodeString_valid [OF hex] len
  obtain bs where bs: "DecodeString ?t = Inr bs" "2 * length bs = length ?t"
      "EncodeToString bs = map hexLower ?t"
    by auto
  have "length bs = 32" using bs(2) len by simp
  then show ?thesis
    using bs(1,3) len by (simp add: GetTxNextBlock_supplied [OF assms(1)])
qed

lemma GetTxNextBlock_invalid:
  assumes "blockHash \<noteq> ''''" and "\<not> valid_hex32 (TrimPrefix blockHash ''0x'')"
  shows "\<exists>e. GetTxNextBlock backend monitor duration trx blockHash = ([], Err e)"
proof (cases "length (TrimPrefix blockHash ''0x'') = 64")
  case True
  then have "\<not> list_all isHexDigit (TrimPrefix blockHash ''0x'')"
    using assms(2) by (simp add: valid_hex32_def)
  from DecodeString_invalid [OF this] obtain e
    where "DecodeString (TrimPrefix blockHash ''0x'') = Inl e" ..
  then show ?thesis
    using True by (simp add: GetTxNextBlock_supplied [OF assms(1)])
next
  case False
  then show ?thesis
    by (simp add: GetTxNextBlock_supplied [OF assms(1)])
qed

text \<open>
  C2. With a non-empty block-hash string, \<open>GetTxNextBlock\<close> returns the decoded bytes
  (32 bytes whose hex encoding is the string without its optional \<open>0x\<close> prefix, in lower
  case) when that remainder is 64 hex digits, and an error otherwise. With no block-hash
  string it reads the receipt of the reference transaction, waits for the block numbered
  one above the receipt's block number, and returns that block's hash bytes; an error of
  either read is returned.
\<close>

theorem GetTxNextBlock_result:
  "(blockHash \<noteq> '''' \<and> valid_hex32 (TrimPrefix blockHash ''0x'') \<longrightarrow>
      (\<exists>bs. snd (GetTxNextBlock backend monitor duration trx blockHash) = Ok bs
          \<and> DecodeString (TrimPrefix blockHash ''0x'') = Inr bs
          \<and> length bs = 32
          \<and> EncodeToString bs = map hexLower (TrimPrefix blockHash ''0x'')))
   \<and> (blockHash \<noteq> '''' \<and> \<not> valid_hex32 (TrimPrefix blockHash ''0x'') \<longrightarrow>
      (\<exists>e. snd (GetTxNextBlock backend monitor duration trx blockHash) = Err e))
   \<and> (TransactionReceipt backend (BytesToHash trx) = Inr tx
        \<and> WaitBlock backend duration (BlockNumber tx + 1) = Inr block \<longrightarrow>
      GetTxNextBlock backend monitor duration trx '''' =
        ([TransactionReceipt_call (BytesToHash trx),
          WaitBlock_call duration (BlockNumber tx + 1)], Ok (block_Hash block)))
   \<and> (TransactionReceipt backend (BytesToHash trx) = Inl err \<longrightarrow>
      snd (GetTxNextBlock backend monitor duration trx '''') = Err (External err))
   \<and> (TransactionReceipt backend (BytesToHash trx) = Inr tx
        \<and> WaitBlock backend duration (BlockNumber tx + 1) = Inl err \<longrightarrow>
      snd (GetTxNextBlock backend monitor duration trx '''') = Err (External err))"
proof (intro conjI impI)
  assume "blockHash \<noteq> '''' \<and> valid_hex32 (TrimPrefix blockHash ''0x'')"
  then show "\<exists>bs. snd (GetTxNextBlock backend monitor duration trx blockHash) = Ok bs
          \<and> DecodeString (TrimPrefix blockHash ''0x'') = Inr bs
          \<and> length bs = 32
          \<and> EncodeToString bs = map hexLower (TrimPrefix blockHash ''0x'')"
    using GetTxNextBlock_valid [of blockHash backend monitor duration trx] by auto
next
  assume "blockHash \<noteq> '''' \<and> \<not> valid_hex32 (TrimPrefix blockHash ''0x'')"
  then show "\<exists>e. snd (GetTxNextBlock backend monitor duration trx blockHash) = Err e"
    using GetTxNextBlock_invalid [of blockHash backend monitor duration trx] by auto
qed (simp_all add: GetTxNextBlock_def Bytes_def)

lemma example_hash_valid: "valid_hex32 example_hash"
  by (simp add: valid_hex32_def example_hash_def isHexDigit_def)

lemma example_hash_decoded: "DecodeString example_hash = Inr example_hash_bytes"
  by (simp add: example_hash_def example_hash_bytes_def fromHexChar_def)

theorem GetTxNextBlock_result_witness:
  "''0x'' @ example_hash \<noteq> '''' \<and> valid_hex32 (TrimPrefix (''0x'' @ example_hash) ''0x'')
   \<and> snd (GetTxNextBlock example_reads () 1000 [1, 2, 3] (''0x'' @ example_hash)) =
       Ok example_hash_bytes
   \<and> ''0x1234'' \<noteq> '''' \<and> \<not> valid_hex32 (TrimPrefix ''0x1234'' ''0x'')
   \<and> snd (GetTxNextBlock example_reads () 1000 [1, 2, 3] ''0x1234'') =
       Err (New ''invalid length'')
   \<and> TransactionReceipt example_reads (BytesToHash [1, 2, 3]) = Inr \<lparr> BlockNumber = 100 \<rparr>
   \<and> WaitBlock example_reads 1000 (BlockNumber \<lparr> BlockNumber = 100 \<rparr> + 1) =
       Inr \<lparr> block_Hash = replicate 32 7 \<rparr>
   \<and> GetTxNextBlock example_reads () 1000 [1, 2, 3] '''' =
       ([TransactionReceipt_call (BytesToHash [1, 2, 3]), WaitBlock_call 1000 101],
        Ok (replicate 32 7))
   \<and> TransactionReceipt example_reads (BytesToHash [5]) = Inl ''not found''
   \<and> snd (GetTxNextBlock example_reads () 1000 [5] '''') = Err (External ''not found'')
   \<and> TransactionReceipt example_reads (BytesToHash [4]) = Inr \<lparr> BlockNumber = 200 \<rparr>
   \<and> WaitBlock example_reads 1000 (BlockNumber \<lparr> BlockNumber = 200 \<rparr> + 1) =
       Inl ''context deadline exceeded''
   \<and> snd (GetTxNextBlock example_reads () 1000 [4] '''') =
       Err (External ''context deadline exceeded'')"
proof -
  have supplied:
    "snd (GetTxNextBlock example_reads () 1000 [1, 2, 3] (''0x'' @ example_hash)) =
       Ok example_hash_bytes"
    using GetTxNextBlock_result [of "''0x'' @ example_hash" example_reads "()" 1000 "[1, 2, 3]"]
      example_hash_valid
    by (simp only: TrimPrefix_0x example_hash_decoded) auto
  have short:
    "snd (GetTxNextBlock example_reads () 1000 [1, 2, 3] ''0x1234'') =
       Err (New ''invalid length'')"
    by (simp add: GetTxNextBlock_def TrimPrefix_def)
  have short_invalid: "\<not> valid_hex32 (TrimPrefix ''0x1234'' ''0x'')"
    by (simp add: valid_hex32_def TrimPrefix_def)
  have reads:
    "TransactionReceipt example_reads (BytesToHash [1, 2, 3]) = Inr \<lparr> BlockNumber = 100 \<rparr>"
    "TransactionReceipt example_reads (BytesToHash [5]) = Inl ''not found''"
    "TransactionReceipt example_reads (BytesToHash [4]) = Inr \<lparr> BlockNumber = 200 \<rparr>"
    "WaitBlock example_reads 1000 (BlockNumber \<lparr> BlockNumber = 100 \<rparr> + 1) =
       Inr \<lparr> block_Hash = replicate 32 7 \<rparr>"
    "WaitBlock example_reads 1000 (BlockNumber \<lparr> BlockNumber = 200 \<rparr> + 1) =
       Inl ''context deadline exceeded''"
    by (simp_all add: example_reads_def BytesToHash_def)
  have trimmed: "TrimPrefix (''0x'' @ example_hash) ''0x'' = example_hash"
    by (rule TrimPrefix_0x)
  show ?thesis
    using supplied short short_invalid reads example_hash_valid trimmed
      GetTxNextBlock_result [of _ example_reads "()" 1000 "[1, 2, 3]" "\<lparr> BlockNumber = 100 \<rparr>"
        "\<lparr> block_Hash = replicate 32 7 \<rparr>"]
      GetTxNextBlock_result [of _ example_reads "()" 1000 "[5]" _ _ "''not found''"]
      GetTxNextBlock_result [of _ example_reads "()" 1000 "[4]" "\<lparr> BlockNumber = 200 \<rparr>" _
        "''context deadline exceeded''"]
    by simp
qed

text \<open>
  C9. When the block-hash string is 64 hex digits, with or without the prefix \<open>0x\<close>,
  \<open>GetTxNextBlock\<close> makes no chain read (neither the receipt read nor the wait for the
  next block), returns bytes, and its result does not depend on the backend, the monitor,
  the duration or the reference transaction.
\<close>

theorem GetTxNextBlock_supplied_hash_reads_nothing:
  assumes "valid_hex32 h" and "blockHash = h \<or> blockHash = ''0x'' @ h"
  shows "fst (GetTxNextBlock backend monitor duration trx blockHash) = []
       \<and> (\<exists>bs. snd (GetTxNextBlock backend monitor duration trx blockHash) = Ok bs)
       \<and> GetTxNextBlock backend' monitor' duration' trx' blockHash =
           GetTxNextBlock backend monitor duration trx blockHash"
proof -
  have ne: "blockHash \<noteq> ''''"
    using assms by (auto simp: valid_hex32_def)
  have t: "TrimPrefix blockHash ''0x'' = h"
    using assms TrimPrefix_hex TrimPrefix_0x by auto
  from GetTxNextBlock_valid [OF ne, of backend monitor duration trx] assms(1) t
  obtain bs where "GetTxNextBlock backend monitor duration trx blockHash = ([], Ok bs)"
    by auto
  moreover have "GetTxNextBlock backend' monitor' duration' trx' blockHash =
           GetTxNextBlock backend monitor duration trx blockHash"
    by (simp add: GetTxNextBlock_supplied [OF ne])
  ultimately show ?thesis by simp
qed

theorem GetTxNextBlock_supplied_hash_reads_nothing_witness:
  "valid_hex32 example_hash
   \<and> fst (GetTxNextBlock example_reads () 1000 [1, 2, 3] example_hash) = []
   \<and> snd (GetTxNextBlock example_reads () 1000 [1, 2, 3] example_hash) = Ok example_hash_bytes
   \<and> GetTxNextBlock \<lparr> TransactionReceipt = (\<lambda>h. Inl ''unreachable''),
                        WaitBlock = (\<lambda>d n. Inl ''unreachable'') \<rparr> () 0 [] example_hash =
       GetTxNextBlock example_reads () 1000 [1, 2, 3] example_hash
   \<and> fst (GetTxNextBlock example_reads () 1000 [1, 2, 3] (''0x'' @ example_hash)) = []
   \<and> GetTxNextBlock \<lparr> TransactionReceipt = (\<lambda>h. Inl ''unreachable''),
                        WaitBlock = (\<lambda>d n. Inl ''unreachable'') \<rparr> () 0 []
         (''0x'' @ example_hash) =
       GetTxNextBlock example_reads () 1000 [1, 2, 3] (''0x'' @ example_hash)"
proof -
  have decoded:
    "snd (GetTxNextBlock example_reads () 1000 [1, 2, 3] example_hash) = Ok example_hash_bytes"
    using example_hash_valid example_hash_decoded TrimPrefix_hex [OF example_hash_valid]
      GetTxNextBlock_supplied [of example_hash example_reads "()" 1000 "[1, 2, 3]"]
    by (cases "example_hash = []") (auto simp: valid_hex32_def)
  show ?thesis
    using decoded example_hash_valid
      GetTxNextBlock_supplied_hash_reads_nothing
        [of example_hash example_hash example_reads "()" 1000 "[1, 2, 3]"
            "\<lparr> TransactionReceipt = (\<lambda>h. Inl ''unreachable''),
               WaitBlock = (\<lambda>d n. Inl ''unreachable'') \<rparr>" "()" 0 "[]"]
      GetTxNextBlock_supplied_hash_reads_nothing
        [of example_hash "''0x'' @ example_hash" example_reads "()" 1000 "[1, 2, 3]"
            "\<lparr> TransactionReceipt = (\<lambda>h. Inl ''unreachable''),
               WaitBlock = (\<lambda>d n. Inl ''unreachable'') \<rparr>" "()" 0 "[]"]
    by simp
qed

subsection \<open>Listing the last sent cheques\<close>

lemma range_cheques_map:
  "\<forall>k \<in> set ks. k |\<in>| fmdom m \<Longrightarrow>
   range_cheques String m ks acc = acc @ map (\<lambda>k. entry_of String k (the (fmlookup m k))) ks"
  by (induction ks arbitrary: acc) (auto simp: entry_of_def fmdom_notD split: option.splits)

lemma map_iteration_mem: "map_iteration m ks \<Longrightarrow> k \<in> set ks \<longleftrightarrow> k |\<in>| fmdom m"
  by (auto simp: map_iteration_def fset_of_list_elem[symmetric])

lemma map_iteration_mset:
  "map_iteration m ks \<Longrightarrow> map_iteration m ks' \<Longrightarrow> mset ks = mset ks'"
  by (metis map_iteration_def set_eq_iff_mset_eq_distinct fset_of_list.rep_eq)

lemma map_iteration_length: "map_iteration m ks \<Longrightarrow> length ks = fcard (fmdom m)"
  by (metis map_iteration_def distinct_card fcard.rep_eq fset_of_list.rep_eq)

text \<open>
  C4 (as amended). For every mapping of last-sent cheques, every execution of the
  send-list command emits exactly one entry per peer of the mapping, \<open>Len\<close> being their
  number; two executions over the same mapping emit the same entries up to order. The
  order of the entries is the order in which the runtime iterates over the map on that
  execution.
\<close>

theorem send_list_entries_up_to_order:
  "map_iteration cheques order \<Longrightarrow> map_iteration cheques order' \<Longrightarrow>
   \<exists>r r'. ListSendChequesCmd_Run String (Inr cheques) order = Ok r
        \<and> ListSendChequesCmd_Run String (Inr cheques) order' = Ok r'
        \<and> mset (Cheques r) = mset (Cheques r')
        \<and> Cheques r = map (\<lambda>k. entry_of String k (the (fmlookup cheques k))) order
        \<and> Cheques r' = map (\<lambda>k. entry_of String k (the (fmlookup cheques k))) order'
        \<and> Len r = int (fcard (fmdom cheques))
        \<and> Len r' = Len r"
proof -
  let ?f = "\<lambda>k. entry_of String k (the (fmlookup cheques k))"
  let ?r = "\<lparr> Cheques = map ?f order, Len = int (length order) \<rparr>"
  let ?r' = "\<lparr> Cheques = map ?f order', Len = int (length order') \<rparr>"
  assume it: "map_iteration cheques order" and it': "map_iteration cheques order'"
  have dom: "\<forall>k \<in> set order. k |\<in>| fmdom cheques"
    using it by (simp add: map_iteration_mem)
  have dom': "\<forall>k \<in> set order'. k |\<in>| fmdom cheques"
    using it' by (simp add: map_iteration_mem)
  have run: "ListSendChequesCmd_Run String (Inr cheques) order = Ok ?r"
    by (simp add: ListSendChequesCmd_Run_def range_cheques_map [OF dom])
  have run': "ListSendChequesCmd_Run String (Inr cheques) order' = Ok ?r'"
    by (simp add: ListSendChequesCmd_Run_def range_cheques_map [OF dom'])
  have "mset (map ?f order) = image_mset ?f (mset order)"
    by (rule mset_map)
  moreover have "mset (map ?f order') = image_mset ?f (mset order')"
    by (rule mset_map)
  ultimately have same: "mset (Cheques ?r) = mset (Cheques ?r')"
    using map_iteration_mset [OF it it'] by simp
  have entries: "Cheques ?r = map ?f order" "Cheques ?r' = map ?f order'"
    by simp_all
  have len: "Len ?r = int (fcard (fmdom cheques))" "Len ?r' = Len ?r"
    using map_iteration_length [OF it] map_iteration_length [OF it'] by simp_all
  show ?thesis
    using run run' same entries len by blast
qed

lemma example_cheques_runs:
  "ListSendChequesCmd_Run example_String (Inr example_cheques) [''peerA'', ''peerB''] =
     Ok \<lparr> Cheques =
            [\<lparr> c_PeerID = ''peerA'', c_Beneficiary = ''0x0101'', c_Vault = ''0x0000'',
               c_Payout = 100 \<rparr>,
             \<lparr> c_PeerID = ''peerB'', c_Beneficiary = ''0x0000'', c_Vault = ''0x0000'',
               c_Payout = 250 \<rparr>],
          Len = 2 \<rparr>"
  "ListSendChequesCmd_Run example_String (Inr example_cheques) [''peerB'', ''peerA''] =
     Ok \<lparr> Cheques =
            [\<lparr> c_PeerID = ''peerB'', c_Beneficiary = ''0x0000'', c_Vault = ''0x0000'',
               c_Payout = 250 \<rparr>,
             \<lparr> c_PeerID = ''peerA'', c_Beneficiary = ''0x0101'', c_Vault = ''0x0000'',
               c_Payout = 100 \<rparr>],
          Len = 2 \<rparr>"
  by (simp_all add: ListSendChequesCmd_Run_def example_cheques_def example_String_def)

lemma example_cheques_orders:
  "map_iteration example_cheques [''peerA'', ''peerB'']"
  "map_iteration example_cheques [''peerB'', ''peerA'']"
  by (auto simp: map_iteration_def example_cheques_def)

theorem send_list_entries_up_to_order_witness:
  "map_iteration example_cheques [''peerA'', ''peerB'']
   \<and> map_iteration example_cheques [''peerB'', ''peerA'']
   \<and> ListSendChequesCmd_Run example_String (Inr example_cheques) [''peerA'', ''peerB''] =
       Ok \<lparr> Cheques =
              [\<lparr> c_PeerID = ''peerA'', c_Beneficiary = ''0x0101'', c_Vault = ''0x0000'',
                 c_Payout = 100 \<rparr>,
               \<lparr> c_PeerID = ''peerB'', c_Beneficiary = ''0x0000'', c_Vault = ''0x0000'',
                 c_Payout = 250 \<rparr>],
            Len = 2 \<rparr>
   \<and> ListSendChequesCmd_Run example_String (Inr example_cheques) [''peerB'', ''peerA''] =
       Ok \<lparr> Cheques =
              [\<lparr> c_PeerID = ''peerB'', c_Beneficiary = ''0x0000'', c_Vault = ''0x0000'',
                 c_Payout = 250 \<rparr>,
               \<lparr> c_PeerID = ''peerA'', c_Beneficiary = ''0x0101'', c_Vault = ''0x0000'',
                 c_Payout = 100 \<rparr>],
            Len = 2 \<rparr>
   \<and> int (fcard (fmdom example_cheques)) = 2"
  using send_list_entries_up_to_order
          [OF example_cheques_orders(1) example_cheques_orders(2), of example_String]
  by (auto simp: example_cheques_orders example_cheques_runs)

text \<open>
  C4 as stated says that two executions over the same mapping display the same sequence.
  Two iteration orders of one map of two cheques give two different sequences.
\<close>

theorem send_list_order_counterexample:
  "map_iteration example_cheques [''peerA'', ''peerB'']
   \<and> map_iteration example_cheques [''peerB'', ''peerA'']
   \<and> ListSendChequesCmd_Run example_String (Inr example_cheques) [''peerA'', ''peerB''] \<noteq>
     ListSendChequesCmd_Run example_String (Inr example_cheques) [''peerB'', ''peerA'']"
  by (simp add: example_cheques_orders example_cheques_runs)

subsection \<open>Received-cheque history of a peer\<close>

lemma append_records_map:
  "append_records peer_id records acc =
     acc @ map (\<lambda>v. \<lparr> PeerId = peer_id, r_Vault = cr_Vault v,
                         r_Beneficiary = cr_Beneficiary v, r_Amount = cr_Amount v,
                         r_Time = cr_ReceiveTime v \<rparr>) records"
  by (induction records arbitrary: acc) simp_all

text \<open>
  C6. For the records \<open>ReceivedChequeRecordsByPeer\<close> returns for the requested peer, the
  receive-history command emits one entry per record, in the same order, each with the
  record's beneficiary, vault, amount and timestamp and with the requested peer as peer
  id; \<open>Len\<close> is the number of records.
\<close>

theorem receive_history_one_entry_per_record:
  "ReceivedChequeRecordsByPeer peer_id = Inr records \<Longrightarrow>
   \<exists>out. snd (ChequeReceiveHistoryPeerCmd_Run ReceivedChequeRecordsByPeer (peer_id # rest)) = Ok out
     \<and> rs_Len out = int (length records)
     \<and> length (Records out) = length records
     \<and> (\<forall>i < length records.
           PeerId (Records out ! i) = peer_id
         \<and> r_Beneficiary (Records out ! i) = cr_Beneficiary (records ! i)
         \<and> r_Vault (Records out ! i) = cr_Vault (records ! i)
         \<and> r_Amount (Records out ! i) = cr_Amount (records ! i)
         \<and> r_Time (Records out ! i) = cr_ReceiveTime (records ! i))"
  by (simp add: ChequeReceiveHistoryPeerCmd_Run_def append_records_map)

theorem receive_history_one_entry_per_record_witness:
  "example_records ''peerA'' =
     Inr [\<lparr> cr_Vault = replicate 20 3, cr_Beneficiary = replicate 20 1, cr_Amount = 100,
            cr_ReceiveTime = 1650000000 \<rparr>,
          \<lparr> cr_Vault = replicate 20 3, cr_Beneficiary = replicate 20 1, cr_Amount = 40,
            cr_ReceiveTime = 1650003600 \<rparr>]
   \<and> snd (ChequeReceiveHistoryPeerCmd_Run example_records [''peerA'']) =
       Ok \<lparr> Records =
              [\<lparr> PeerId = ''peerA'', r_Vault = replicate 20 3, r_Beneficiary = replicate 20 1,
                 r_Amount = 100, r_Time = 1650000000 \<rparr>,
               \<lparr> PeerId = ''peerA'', r_Vault = replicate 20 3, r_Beneficiary = replicate 20 1,
                 r_Amount = 40, r_Time = 1650003600 \<rparr>],
            rs_Len = 2 \<rparr>"
  using receive_history_one_entry_per_record [of example_records "''peerA''" _ "[]"]
  by (simp add: example_records_def ChequeReceiveHistoryPeerCmd_Run_def)

subsection \<open>Sent-cheque statistics\<close>

lemma append_stats_map:
  "append_stats stats acc =
     acc @ map (\<lambda>stat. \<lparr> TotalIssued = s_Amount stat, TotalIssuedCount = s_Count stat,
                  Date = s_Date stat \<rparr>) stats"
  by (induction stats arbitrary: acc) simp_all

text \<open>
  C7. The sent-cheque stats command calls \<open>SentStatsHistory\<close> once, with a window of 30
  days; for the per-day stats it returns, the command emits one entry per stat, in order,
  with the amount as total issued, the count as total issued count, and the date. It adds
  no entry of its own.
\<close>

theorem sent_stats_thirty_days_one_entry_per_stat:
  "fst (ChequeSendHistoryStatsCmd_Run SentStatsHistory) = [30]
   \<and> (SentStatsHistory 30 = Inr stats \<longrightarrow>
        (\<exists>out. snd (ChequeSendHistoryStatsCmd_Run SentStatsHistory) = Ok out
           \<and> length out = length stats
           \<and> (\<forall>i < length stats.
                 TotalIssued (out ! i) = s_Amount (stats ! i)
               \<and> TotalIssuedCount (out ! i) = s_Count (stats ! i)
               \<and> Date (out ! i) = s_Date (stats ! i))))"
  by (auto simp: ChequeSendHistoryStatsCmd_Run_def sentStatsDuration_def append_stats_map
      split: sum.splits)

theorem sent_stats_thirty_days_one_entry_per_stat_witness:
  "example_stats 30 = Inr [\<lparr> s_Amount = 500, s_Count = 2, s_Date = 1650000000 \<rparr>,
                           \<lparr> s_Amount = 70, s_Count = 1, s_Date = 1650259200 \<rparr>]
   \<and> ChequeSendHistoryStatsCmd_Run example_stats =
       ([30], Ok [\<lparr> TotalIssued = 500, TotalIssuedCount = 2, Date = 1650000000 \<rparr>,
                  \<lparr> TotalIssued = 70, TotalIssuedCount = 1, Date = 1650259200 \<rparr>])"
  using sent_stats_thirty_days_one_entry_per_stat [of example_stats]
  by (simp add: example_stats_def ChequeSendHistoryStatsCmd_Run_def sentStatsDuration_def)

end
